theory Spec2Isabelle
  imports Main "HOL-Library.Word" "HOL-Library.Multiset" "HOL-Library.Sublist" "HOL-Library.Log_Nat"
    "HOL-Library.Product_Lexorder"
begin

section \<open>JavaScript strings\<close>

text \<open>
  A JavaScript string is a sequence of UTF-16 code units; \<open>length\<close>, indexing, \<open>split\<close>,
  \<open>trim\<close> and \<open>replace\<close> all work on code units. A string is modelled as a list of
  16-bit words. \<open>js\<close> writes a literal whose characters are all below U+0100.
\<close>

type_synonym jschar = "16 word"
type_synonym jsstring = "jschar list"

definition js :: "string \<Rightarrow> jsstring" where
  "js s = map (\<lambda>c. of_nat (of_char c)) s"


text \<open>
  The code units that \<open>String.prototype.trim\<close> and \<open>parseFloat\<close> strip: WhiteSpace
  (TAB, VT, FF, SP, NBSP, ZWNBSP and the space separators of Unicode) and LineTerminator
  (LF, CR, LS, PS).
\<close>

definition isWhiteSpace :: "jschar \<Rightarrow> bool" where
  "isWhiteSpace c \<longleftrightarrow>
     c \<in> {0x09, 0x0A, 0x0B, 0x0C, 0x0D, 0x20, 0xA0, 0x1680,
          0x2000, 0x2001, 0x2002, 0x2003, 0x2004, 0x2005, 0x2006, 0x2007, 0x2008, 0x2009, 0x200A,
          0x2028, 0x2029, 0x202F, 0x205F, 0x3000, 0xFEFF}"

definition trimStart :: "jsstring \<Rightarrow> jsstring" where
  "trimStart s = dropWhile isWhiteSpace s"

definition trim :: "jsstring \<Rightarrow> jsstring" where
  "trim s = rev (dropWhile isWhiteSpace (rev (dropWhile isWhiteSpace s)))"

text \<open>
  \<open>s.split(sep)\<close> for a separator of one code unit; the empty string splits into \<open>[""]\<close>.
  The separators of the code are the line feed \<open>0x0A\<close>, the semicolon \<open>0x3B\<close> and the comma
  \<open>0x2C\<close>.
\<close>

fun split :: "jschar \<Rightarrow> jsstring \<Rightarrow> jsstring list" where
  "split sep [] = [[]]"
| "split sep (c # cs) =
     (if c = sep then [] # split sep cs
      else (c # hd (split sep cs)) # tl (split sep cs))"

text \<open>\<open>parts.join(sep)\<close>.\<close>

fun join :: "jsstring \<Rightarrow> jsstring list \<Rightarrow> jsstring" where
  "join sep [] = []"
| "join sep [p] = p"
| "join sep (p # q # ps) = p @ sep @ join sep (q # ps)"


text \<open>\<open>s.includes(sub)\<close>: \<open>sub\<close> occurs in \<open>s\<close> as a contiguous run of code units.\<close>

fun includes_str :: "jsstring \<Rightarrow> jsstring \<Rightarrow> bool" where
  "includes_str [] sub = (sub = [])"
| "includes_str (c # cs) sub = (prefix sub (c # cs) \<or> includes_str cs sub)"

section \<open>The tabular parser (utils/csvParser.ts)\<close>

text \<open>
  A \<open>CSVRow\<close> is an object with string values, read here only through \<open>row[key]\<close> and
  \<open>key in row\<close> at keys that \<open>Object.prototype\<close> does not define: a partial map.
\<close>

type_synonym CSVRow = "jsstring \<rightharpoonup> jsstring"







section \<open>JavaScript numbers\<close>

text \<open>
  A Number is NaN, one of the two infinities, or a finite double, which is a rational
  number. The sign of zero is not kept: none of the code below tells \<open>-0\<close> from \<open>0\<close>.
\<close>

datatype number = NaN | PInf | NInf | Fin rat

definition isNaN :: "number \<Rightarrow> bool" where
  "isNaN x \<longleftrightarrow> x = NaN"


text \<open>
  Rounding a rational to the nearest double, ties to even: \<open>e\<close> is the binary exponent of the
  value, at least that of the subnormals, and \<open>q\<close> the distance between neighbouring doubles
  there. A value that rounds to \<open>2^1024\<close> or more (binary exponent 1024 or more) is infinite.
  \<open>ilog2 a\<close> is the binary exponent of a positive rational: \<open>2^(ilog2 a) \<le> a < 2^(ilog2 a + 1)\<close>.
\<close>

definition ilog2 :: "rat \<Rightarrow> int" where
  "ilog2 a =
     (let (p, q) = quotient_of a; k = bitlen p - bitlen q
      in if (if k \<ge> 0 then 2 ^ nat k \<le> a else a * 2 ^ nat (- k) \<ge> 1) then k else k - 1)"

definition pow2 :: "int \<Rightarrow> rat" where
  "pow2 k = (if k \<ge> 0 then 2 ^ nat k else 1 / 2 ^ nat (- k))"

definition roundHalfEven :: "rat \<Rightarrow> int" where
  "roundHalfEven x =
     (let f = \<lfloor>x\<rfloor>; d = x - of_int f
      in if d < 1 / 2 then f else if d > 1 / 2 then f + 1 else if even f then f else f + 1)"

definition toDouble :: "rat \<Rightarrow> number" where
  "toDouble v =
     (if v = 0 then Fin 0
      else let a = \<bar>v\<bar>;
               e = max (ilog2 a) (- 1022);
               q = pow2 (e - 52);
               r = of_int (roundHalfEven (a / q)) * q
           in if ilog2 r \<ge> 1024 then (if v < 0 then NInf else PInf)
              else Fin (if v < 0 then - r else r))"

text \<open>
  \<open>parseFloat\<close>: leading white space is skipped, then the longest prefix that is a
  StrDecimalLiteral is read: an optional sign, then \<open>Infinity\<close> or decimal digits with an
  optional fraction and an optional exponent (an exponent indicator with no digit after it is
  not part of the literal). With no such prefix the result is NaN.
\<close>

definition isDigit :: "jschar \<Rightarrow> bool" where
  "isDigit c \<longleftrightarrow> 0x30 \<le> c \<and> c \<le> 0x39"

definition digitsValue :: "jsstring \<Rightarrow> int" where
  "digitsValue ds = foldl (\<lambda>a d. 10 * a + (uint d - 0x30)) 0 ds"

definition exponentPart :: "jsstring \<Rightarrow> int" where
  "exponentPart s =
     (case s of
        [] \<Rightarrow> 0
      | c # r \<Rightarrow>
          if c = 0x65 \<or> c = 0x45 then
            (let neg = (r \<noteq> [] \<and> hd r = 0x2D);
                 r' = (if r \<noteq> [] \<and> (hd r = 0x2D \<or> hd r = 0x2B) then tl r else r);
                 ds = takeWhile isDigit r'
             in if ds = [] then 0 else if neg then - digitsValue ds else digitsValue ds)
          else 0)"

definition pow10 :: "int \<Rightarrow> rat" where
  "pow10 k = (if k \<ge> 0 then 10 ^ nat k else 1 / 10 ^ nat (- k))"

definition parseFloat :: "jsstring \<Rightarrow> number" where
  "parseFloat string =
     (let t = trimStart string;
          neg = (t \<noteq> [] \<and> hd t = 0x2D);
          u = (if t \<noteq> [] \<and> (hd t = 0x2D \<or> hd t = 0x2B) then tl t else t)
      in if prefix (js ''Infinity'') u then (if neg then NInf else PInf)
         else
           let ip = takeWhile isDigit u;
               r1 = dropWhile isDigit u;
               hasDot = (r1 \<noteq> [] \<and> hd r1 = 0x2E);
               fp = (if hasDot then takeWhile isDigit (tl r1) else []);
               r2 = (if hasDot then dropWhile isDigit (tl r1) else r1)
           in if ip = [] \<and> fp = [] then NaN
              else
                let v = of_int (digitsValue (ip @ fp)) * pow10 (exponentPart r2 - int (length fp))
                in toDouble (if neg then - v else v))"

section \<open>The data model (types.ts)\<close>

text \<open>
  \<open>Position\<close> and \<open>School\<close>. An optional field, and a field that an object literal leaves out,
  is \<open>None\<close>. \<open>name\<close> is declared as a required string, yet the parser builds objects
  without it, so it is optional here.
\<close>

record position =
  latitude :: number
  longitude :: number
  address :: "jsstring option"

record school =
  id' :: nat
  name :: "jsstring option"
  uai :: "jsstring option"
  address :: "jsstring option"
  latitude :: number
  longitude :: number
  type :: "jsstring option"
  distance :: "number option"

section \<open>The entity normalizer (utils/csvParser.ts)\<close>

text \<open>\<open>!row[key]\<close>: the key is missing or its value is the empty string.\<close>

definition falsyField :: "CSVRow \<Rightarrow> jsstring \<Rightarrow> bool" where
  "falsyField row key \<longleftrightarrow> row key = None \<or> row key = Some []"

text \<open>\<open>keys.find(key => key in row)\<close>.\<close>

definition findKey :: "jsstring list \<Rightarrow> CSVRow \<Rightarrow> jsstring option" where
  "findKey keys row = find (\<lambda>key. row key \<noteq> None) keys"

definition genericNameKeys :: "jsstring list" where
  "genericNameKeys = map js [''name'', ''nom'', ''Name'', ''Nom'', ''NAME'', ''NOM'',
     ''etablissement'', ''ecole'', ''school'']"

definition genericLatKeys :: "jsstring list" where
  "genericLatKeys = map js [''latitude'', ''lat'', ''Latitude'', ''Lat'', ''LATITUDE'', ''LAT'']"

definition genericLonKeys :: "jsstring list" where
  "genericLonKeys = map js [''longitude'', ''lon'', ''lng'', ''Longitude'', ''Lon'', ''Lng'',
     ''LONGITUDE'', ''LON'', ''LNG'']"

definition genericAddressKeys :: "jsstring list" where
  "genericAddressKeys = map js [''address'', ''adresse'', ''Address'', ''Adresse'', ''ADDRESS'',
     ''ADRESSE'']"

definition genericTypeKeys :: "jsstring list" where
  "genericTypeKeys = map js [''type'', ''Type'', ''TYPE'', ''category'', ''Category'', ''CATEGORY'']"

text \<open>
  The fallback branch of the callback (generic column names). The object literal it returns
  writes the property \<open>uai\<close> four times, the last write being \<open>row[uaiKey]\<close>, and has no
  property \<open>name\<close>.
\<close>

definition genericRowToSchool :: "CSVRow \<Rightarrow> nat \<Rightarrow> school option" where
  "genericRowToSchool row index =
     (let latKey = findKey genericLatKeys row;
          lonKey = findKey genericLonKeys row;
          nameKeyGeneric = findKey genericNameKeys row;
          addressKey = findKey genericAddressKeys row;
          typeKey = findKey genericTypeKeys row
      in if latKey = None \<or> lonKey = None \<or> nameKeyGeneric = None then None
         else
           let latitude = parseFloat (the (row (the latKey)));
               longitude = parseFloat (the (row (the lonKey)))
           in if isNaN latitude \<or> isNaN longitude then None
              else Some \<lparr>id' = index,
                         name = None,
                         uai = row (js ''uai''),
                         address = (case addressKey of Some k \<Rightarrow> row k | None \<Rightarrow> None),
                         latitude = latitude,
                         longitude = longitude,
                         type = (case typeKey of Some k \<Rightarrow> row k | None \<Rightarrow> None),
                         distance = None\<rparr>)"

text \<open>
  The branch for the college data format. The default type label starts with the code unit
  U+00C9 (E with an acute accent).
\<close>

definition officialRowToSchool :: "CSVRow \<Rightarrow> nat \<Rightarrow> school option" where
  "officialRowToSchool row index =
     (let positionStr = the (row (js ''position''));
          positionParts = split 0x2C positionStr
      in if length positionParts \<noteq> 2 then None
         else
           let latitude = parseFloat (trim (positionParts ! 0));
               longitude = parseFloat (trim (positionParts ! 1))
           in if isNaN latitude \<or> isNaN longitude then None
              else
                let addressParts =
                      (if falsyField row (js ''libelle_commune'') then []
                       else [the (row (js ''libelle_commune''))]) @
                      (if falsyField row (js ''libelle_departement'') then []
                       else [the (row (js ''libelle_departement''))]);
                    address = (if length addressParts > 0 then Some (join (js '', '') addressParts)
                               else None);
                    type0 = (if falsyField row (js ''secteur'')
                             then 0xC9 # js ''tablissement''
                             else the (row (js ''secteur'')));
                    type1 = (if falsyField row (js ''ips'') then type0
                             else type0 @ js '' (IPS: '' @ the (row (js ''ips'')) @ js '')'')
                in Some \<lparr>id' = index,
                         name = row (js ''appellation_officielle''),
                         uai = None,
                         address = address,
                         latitude = latitude,
                         longitude = longitude,
                         type = Some type1,
                         distance = None\<rparr>)"

text \<open>The callback of \<open>rows.map\<close> in \<open>csvRowsToSchools\<close>; \<open>None\<close> is its \<open>null\<close>.\<close>

definition rowToSchool :: "CSVRow \<Rightarrow> nat \<Rightarrow> school option" where
  "rowToSchool row index =
     (if falsyField row (js ''appellation_officielle'') \<or> falsyField row (js ''position'')
      then genericRowToSchool row index
      else officialRowToSchool row index)"

text \<open>\<open>rows.map(callback).filter(school => school !== null)\<close>.\<close>

definition csvRowsToSchools :: "CSVRow list \<Rightarrow> school list" where
  "csvRowsToSchools rows =
     map the (filter (\<lambda>school. school \<noteq> None)
       (map (\<lambda>(row, index). rowToSchool row index) (zip rows [0..<length rows])))"

section \<open>Ranking and filtering (App.tsx)\<close>

text \<open>
  The component state that \<open>calculateDistances\<close> and \<open>applyFilters\<close> read and write through
  the setters \<open>setSchools\<close> and \<open>setFilteredSchools\<close>.
\<close>

datatype sector = SectorAll | Public | Private
datatype level = LevelAll | College | Lycee

record app =
  schools :: "school list"
  filteredSchools :: "school list"
  sectorFilter :: sector
  levelFilter :: level

text \<open>\<open>a.distance || 0\<close>: an absent distance, NaN and zero all give \<open>0\<close>.\<close>

definition orZero :: "number option \<Rightarrow> number" where
  "orZero d = (case d of None \<Rightarrow> Fin 0 | Some NaN \<Rightarrow> Fin 0 | Some x \<Rightarrow> x)"

text \<open>
  Subtraction of Numbers. The difference of two distinct doubles never rounds to zero, and
  the comparator below is read through its sign only, so the finite case keeps the exact
  difference.
\<close>

fun minus_number :: "number \<Rightarrow> number \<Rightarrow> number" where
  "minus_number NaN _ = NaN"
| "minus_number _ NaN = NaN"
| "minus_number PInf PInf = NaN"
| "minus_number NInf NInf = NaN"
| "minus_number PInf _ = PInf"
| "minus_number NInf _ = NInf"
| "minus_number (Fin a) PInf = NInf"
| "minus_number (Fin a) NInf = PInf"
| "minus_number (Fin a) (Fin b) = Fin (a - b)"

text \<open>The sort comparator \<open>(a, b) => (a.distance || 0) - (b.distance || 0)\<close>.\<close>

definition byDistance :: "school \<Rightarrow> school \<Rightarrow> number" where
  "byDistance a b = minus_number (orZero (distance a)) (orZero (distance b))"

text \<open>
  \<open>Array.prototype.sort(comparefn)\<close> is a stable sort: \<open>a\<close> goes after \<open>b\<close> only where
  \<open>comparefn(a, b) > 0\<close>, and a NaN result counts as \<open>0\<close>. For a consistent comparator the
  result is the one of a stable insertion sort.
\<close>

definition positive :: "number \<Rightarrow> bool" where
  "positive x = (case x of PInf \<Rightarrow> True | Fin r \<Rightarrow> r > 0 | _ \<Rightarrow> False)"

fun insert_sorted :: "('a \<Rightarrow> 'a \<Rightarrow> number) \<Rightarrow> 'a \<Rightarrow> 'a list \<Rightarrow> 'a list" where
  "insert_sorted comparefn x [] = [x]"
| "insert_sorted comparefn x (y # ys) =
     (if positive (comparefn x y) then y # insert_sorted comparefn x ys else x # y # ys)"

definition sort_array :: "('a \<Rightarrow> 'a \<Rightarrow> number) \<Rightarrow> 'a list \<Rightarrow> 'a list" where
  "sort_array comparefn xs = foldr (insert_sorted comparefn) xs []"

text \<open>
  The level and sector predicates of \<open>applyFilters\<close>. \<open>String.prototype.toLowerCase\<close> is the
  runtime's Unicode case mapping and is a parameter. The accented spellings of the markers hold
  the code units U+00E8 (e grave) and U+00E9 (e acute).
\<close>

definition levelPasses :: "(jsstring \<Rightarrow> jsstring) \<Rightarrow> level \<Rightarrow> school \<Rightarrow> bool" where
  "levelPasses toLowerCase level school =
     (if name school = None \<or> name school = Some [] then False
      else let schoolName = toLowerCase (the (name school))
           in (case level of
                 College \<Rightarrow> includes_str schoolName (js ''coll'' @ [0xE8] @ js ''ge'')
                              \<or> includes_str schoolName (js ''college'')
               | Lycee \<Rightarrow> includes_str schoolName (js ''lyc'' @ [0xE9] @ js ''e'')
                            \<or> includes_str schoolName (js ''lycee'')
               | LevelAll \<Rightarrow> True))"

definition sectorPasses :: "(jsstring \<Rightarrow> jsstring) \<Rightarrow> sector \<Rightarrow> school \<Rightarrow> bool" where
  "sectorPasses toLowerCase sector school =
     (if type school = None \<or> type school = Some [] then False
      else let schoolType = toLowerCase (the (type school))
           in (case sector of
                 Public \<Rightarrow> includes_str schoolType (js ''public'')
               | Private \<Rightarrow> includes_str schoolType (js ''priv'' @ [0xE9])
                              \<or> includes_str schoolType (js ''private'')
               | SectorAll \<Rightarrow> True))"

definition applyFilters ::
  "(jsstring \<Rightarrow> jsstring) \<Rightarrow> app \<Rightarrow> school list \<Rightarrow> sector \<Rightarrow> level \<Rightarrow> app" where
  "applyFilters toLowerCase st schoolList sector level =
     (let filtered = schoolList;
          filtered = (if level \<noteq> LevelAll then filter (levelPasses toLowerCase level) filtered
                      else filtered);
          filtered = (if sector \<noteq> SectorAll then filter (sectorPasses toLowerCase sector) filtered
                      else filtered)
      in st\<lparr>filteredSchools := filtered\<rparr>)"

text \<open>
  \<open>calculateDistances\<close>. \<open>calculateDistance\<close> (utils/distance.ts) computes in floating point
  with \<open>Math.sin\<close>, \<open>Math.cos\<close>, \<open>Math.atan2\<close> and \<open>Math.sqrt\<close>; it is a parameter here.
\<close>

definition withDistance ::
  "(number \<Rightarrow> number \<Rightarrow> number \<Rightarrow> number \<Rightarrow> number) \<Rightarrow> position \<Rightarrow> school \<Rightarrow> school" where
  "withDistance calculateDistance position school =
     school\<lparr>distance := Some (calculateDistance (position.latitude position)
       (position.longitude position) (latitude school) (longitude school))\<rparr>"

definition calculateDistances ::
  "(number \<Rightarrow> number \<Rightarrow> number \<Rightarrow> number \<Rightarrow> number) \<Rightarrow> (jsstring \<Rightarrow> jsstring) \<Rightarrow>
     app \<Rightarrow> school list \<Rightarrow> position \<Rightarrow> app" where
  "calculateDistances calculateDistance toLowerCase st schoolList position =
     (let schoolsWithDistances = map (withDistance calculateDistance position) schoolList;
          updatedSchools = sort_array byDistance schoolsWithDistances
      in applyFilters toLowerCase (st\<lparr>schools := updatedSchools\<rparr>) updatedSchools
           (sectorFilter st) (levelFilter st))"

section \<open>Comparison of Numbers and the order behind the sort\<close>





section \<open>Example inputs\<close>

text \<open>
  The rows of the specification's examples, with and without a registry code, rows whose
  coordinates are infinite, and texts for the parser: a quoted delimiter, an apostrophe inside
  a word, a space after an apostrophe, and padded cells.
\<close>

definition exampleB :: CSVRow where
  "exampleB = [js ''nom'' \<mapsto> 0xC9 # js ''cole B'', js ''lat'' \<mapsto> js ''45.0'',
     js ''lon'' \<mapsto> js ''5.0'']"

definition exampleA :: CSVRow where
  "exampleA = [js ''appellation_officielle'' \<mapsto> 0xC9 # js ''cole A'',
     js ''position'' \<mapsto> js ''48.8,2.3'', js ''uai'' \<mapsto> js ''0590248Z'']"

definition exampleB_uai :: CSVRow where
  "exampleB_uai = exampleB(js ''uai'' \<mapsto> js ''0590248Z'')"







text \<open>A school with a given identifier and latitude, an initial state and a reference position.\<close>

definition exampleSchool :: "nat \<Rightarrow> number \<Rightarrow> school" where
  "exampleSchool i lat = \<lparr>id' = i, name = None, uai = None, address = None, latitude = lat,
     longitude = Fin 0, type = None, distance = None\<rparr>"

definition exampleApp :: app where
  "exampleApp = \<lparr>schools = [], filteredSchools = [], sectorFilter = SectorAll, levelFilter = LevelAll\<rparr>"

definition exampleOrigin :: position where
  "exampleOrigin = \<lparr>position.latitude = Fin 0, position.longitude = Fin 0,
     position.address = None\<rparr>"


section \<open>The normalizer: names and registry codes\<close>

lemma rowToSchool_id: "rowToSchool row index = Some s \<Longrightarrow> id' s = index"
  by (auto simp: rowToSchool_def genericRowToSchool_def officialRowToSchool_def Let_def
      split: if_splits)

lemma generic_uai:
  "genericRowToSchool row index = Some s \<Longrightarrow> uai s = row (js ''uai'') \<and> name s = None"
  by (auto simp: genericRowToSchool_def Let_def split: if_splits)

lemma official_uai:
  "officialRowToSchool row index = Some s \<Longrightarrow>
     uai s = None \<and> name s = row (js ''appellation_officielle'')"
  by (auto simp: officialRowToSchool_def Let_def split: if_splits)

text \<open>
  C1. The generic row of the specification's example, with key \<open>nom\<close> and coordinates
  \<open>45.0\<close> and \<open>5.0\<close>, is normalized to an institution with latitude 45 and longitude 5 whose
  name is absent: the object built by the fallback branch has no property \<open>name\<close>, although
  the branch resolved the name key and dropped the rows without one.
\<close>

theorem generic_example_has_no_name:
  "exampleB (js ''nom'') = Some (0xC9 # js ''cole B'') \<and>
   rowToSchool exampleB 0 =
     Some \<lparr>id' = 0, name = None, uai = None, address = None, latitude = Fin 45,
       longitude = Fin 5, type = None, distance = None\<rparr>"
  by code_simp

text \<open>
  C2. A row of the college format that holds the registry code \<open>0590248Z\<close> under \<open>uai\<close> is
  normalized to an institution that keeps the official name and has no registry code.
\<close>

theorem official_example_drops_uai:
  "exampleA (js ''uai'') = Some (js ''0590248Z'') \<and>
   map_option uai (rowToSchool exampleA 0) = Some None \<and>
   map_option name (rowToSchool exampleA 0) = Some (Some (0xC9 # js ''cole A''))"
  by code_simp

text \<open>
  C3, as stated, fails: a generic row that holds a value under \<open>uai\<close> is normalized to an
  institution with that value as its registry code.
\<close>

theorem generic_uai_counterexample:
  "(falsyField exampleB_uai (js ''appellation_officielle'') \<or>
      falsyField exampleB_uai (js ''position'')) \<and>
   map_option uai (rowToSchool exampleB_uai 0) = Some (Some (js ''0590248Z''))"
  by code_simp

text \<open>
  C3, amended. For every row normalized by the generic fallback (the official name or the
  position is missing or empty), the registry code of the institution is the value of the row
  under \<open>uai\<close>, and is absent exactly when the row has no such key.
\<close>

theorem generic_carries_uai:
  "falsyField row (js ''appellation_officielle'') \<or> falsyField row (js ''position'') \<Longrightarrow>
   rowToSchool row index = Some s \<Longrightarrow> uai s = row (js ''uai'')"
  by (simp add: rowToSchool_def generic_uai)

theorem generic_carries_uai_witness:
  "(falsyField exampleB_uai (js ''appellation_officielle'') \<or>
      falsyField exampleB_uai (js ''position'')) \<and>
   rowToSchool exampleB_uai 7 =
     Some \<lparr>id' = 7, name = None, uai = Some (js ''0590248Z''), address = None,
       latitude = Fin 45, longitude = Fin 5, type = None, distance = None\<rparr> \<and>
   uai \<lparr>id' = 7, name = None, uai = Some (js ''0590248Z''), address = None,
       latitude = Fin 45, longitude = Fin 5, type = None, distance = None\<rparr>
     = exampleB_uai (js ''uai'')"
proof -
  have a: "falsyField exampleB_uai (js ''appellation_officielle'') \<or>
      falsyField exampleB_uai (js ''position'')"
    by code_simp
  have b: "rowToSchool exampleB_uai 7 =
     Some \<lparr>id' = 7, name = None, uai = Some (js ''0590248Z''), address = None,
       latitude = Fin 45, longitude = Fin 5, type = None, distance = None\<rparr>"
    by code_simp
  from generic_carries_uai [OF a b] a b show ?thesis by simp
qed

section \<open>The normalizer: identifiers\<close>

lemma zip_indices: "zip rows [0..<length rows] = map (\<lambda>i. (rows ! i, i)) [0..<length rows]"
  by (rule nth_equalityI) simp_all

lemma ids_of_kept:
  "map id' (map the (filter (\<lambda>school. school \<noteq> None) (map (\<lambda>i. rowToSchool (rows ! i) i) is)))
     = filter (\<lambda>i. rowToSchool (rows ! i) i \<noteq> None) is"
  by (induction "is") (auto simp: rowToSchool_id)

text \<open>
  C4, as stated, fails: when the first of two rows is dropped, the institution of the second
  row has the identifier 1, not 0.
\<close>

theorem ids_not_dense_counterexample:
  "map id' (csvRowsToSchools [Map.empty, exampleB]) = [1]"
  by code_simp

text \<open>
  C4, amended. For every parsed row sequence, the identifiers of the institutions produced are
  the positions (from 0) of the accepted rows in the input sequence, in output order: they are
  strictly increasing and unique, and a dropped row does consume its position, so that the
  identifiers are 0, 1, 2, ... exactly when no earlier row was dropped.
\<close>

theorem ids_are_row_positions:
  "map id' (csvRowsToSchools rows)
     = filter (\<lambda>i. rowToSchool (rows ! i) i \<noteq> None) [0..<length rows]
   \<and> sorted_wrt (<) (map id' (csvRowsToSchools rows))
   \<and> distinct (map id' (csvRowsToSchools rows))"
proof -
  have eq: "map id' (csvRowsToSchools rows)
      = filter (\<lambda>i. rowToSchool (rows ! i) i \<noteq> None) [0..<length rows]"
    using ids_of_kept [of rows "[0..<length rows]"]
    by (simp add: csvRowsToSchools_def zip_indices comp_def)
  have "sorted_wrt (<) (filter (\<lambda>i. rowToSchool (rows ! i) i \<noteq> None) [0..<length rows])"
    by (rule sorted_wrt_filter) simp
  moreover have "distinct (filter (\<lambda>i. rowToSchool (rows ! i) i \<noteq> None) [0..<length rows])"
    by simp
  ultimately show ?thesis using eq by simp
qed

section \<open>The normalizer: coordinates\<close>





section \<open>The parser: quoted fields\<close>





section \<open>The parser: quotes and white space in values\<close>




















section \<open>Ranking\<close>













text \<open>
  A run of the ranking, with the latitude standing in for the distance: equal distances keep
  their order, and the NaN distance is ordered as \<open>0\<close>.
\<close>

lemma ranking_example:
  "map (\<lambda>s. (id' s, distance s))
     (schools (calculateDistances (\<lambda>lat1 lon1 lat2 lon2. lat2) (\<lambda>s. s) exampleApp
        [exampleSchool 0 (Fin (16 / 5)), exampleSchool 1 (Fin 1), exampleSchool 2 NaN,
         exampleSchool 3 (Fin (16 / 5)), exampleSchool 4 (Fin (15 / 2)), exampleSchool 5 (Fin 0)]
        exampleOrigin))
   = [(2, Some NaN), (5, Some (Fin 0)), (1, Some (Fin 1)), (0, Some (Fin (16 / 5))),
      (3, Some (Fin (16 / 5))), (4, Some (Fin (15 / 2)))]"
  by code_simp

section \<open>Filtering\<close>

text \<open>
  C9. For every institution list and every level and sector setting, the filtered list is the
  input with some elements removed: the survivors are those that pass both predicates, each
  is the input element itself (its distance included), and their order is the input's.
\<close>

theorem filtering_only_removes:
  "filteredSchools (applyFilters toLowerCase st schoolList sector level)
     = filter (\<lambda>s. (level = LevelAll \<or> levelPasses toLowerCase level s)
                  \<and> (sector = SectorAll \<or> sectorPasses toLowerCase sector s)) schoolList
   \<and> subseq (filteredSchools (applyFilters toLowerCase st schoolList sector level)) schoolList
   \<and> subseq (map distance (filteredSchools (applyFilters toLowerCase st schoolList sector level)))
        (map distance schoolList)"
proof -
  have eq: "filteredSchools (applyFilters toLowerCase st schoolList sector level)
     = filter (\<lambda>s. (level = LevelAll \<or> levelPasses toLowerCase level s)
                  \<and> (sector = SectorAll \<or> sectorPasses toLowerCase sector s)) schoolList"
    by (auto simp: applyFilters_def Let_def intro: filter_cong)
  have sub: "subseq (filteredSchools (applyFilters toLowerCase st schoolList sector level)) schoolList"
    unfolding eq by (rule subseq_filter_left)
  from eq sub subseq_map [OF sub, of distance] show ?thesis by simp
qed

text \<open>A run of the filter with level \<open>college\<close> and sector \<open>public\<close>.\<close>

lemma filter_example:
  "map id' (filteredSchools (applyFilters (\<lambda>s. s) exampleApp
     [(exampleSchool 0 NaN)\<lparr>name := Some (js ''college A''), type := Some (js ''public'')\<rparr>,
      (exampleSchool 1 NaN)\<lparr>name := Some (js ''lycee B''), type := Some (js ''public'')\<rparr>,
      (exampleSchool 2 NaN)\<lparr>name := Some (js ''coll'' @ [0xE8] @ js ''ge C''),
         type := Some (js ''priv'' @ [0xE9] @ js '' sous contrat'')\<rparr>,
      (exampleSchool 3 NaN)\<lparr>name := Some (js ''un college D''),
         type := Some (js ''public (IPS: 91.0)'')\<rparr>]
     Public College)) = [0, 3]"
  by code_simp

end
